theory Spec2Isabelle
  imports Main
begin

section \<open>The email action endpoint: data model\<close>

text \<open>
  The development embeds \<^verbatim>\<open>src/server/routes/emailActions_Manager.ts\<close>, the
  handler of \<^verbatim>\<open>GET /:action/:token\<close>. The handler talks to a relational
  store through one pooled connection, inside one transaction, and to the email service.
  Rows are records, tables are lists of rows (no key constraint is assumed: a
  \<^verbatim>\<open>SELECT\<close> is a filter and the handler takes element 0 of its result),
  and the connection is an explicit state that is passed along.
\<close>

text \<open>
  A row of \<^verbatim>\<open>email_action_tokens\<close>. The handler reads \<^verbatim>\<open>id\<close> and
  \<^verbatim>\<open>booking_id\<close>, filters on \<^verbatim>\<open>token\<close>, \<^verbatim>\<open>used\<close> and
  \<^verbatim>\<open>expires\<close> and writes \<^verbatim>\<open>used\<close> and \<^verbatim>\<open>used_at\<close>.
  The table's declaration is not part of the sources; the column \<open>tok_action\<close> is the
  bound action that the specification lists among the fields of a token. Timestamps are
  natural numbers, the flag \<^verbatim>\<open>used\<close> (0 or 1 in SQL) is a boolean.
\<close>

record token_row =
  tok_id :: nat
  tok_token :: string
  tok_booking_id :: nat
  tok_action :: string
  tok_used :: bool
  tok_used_at :: "nat option"
  tok_expires :: nat

text \<open>
  A row of \<^verbatim>\<open>bookings\<close>. The handler reads \<^verbatim>\<open>id\<close>, \<^verbatim>\<open>status\<close>
  and \<^verbatim>\<open>infrastructure_id\<close>; the status is the string the store returns, compared
  with \<^verbatim>\<open>'pending'\<close>. The time window and the requester are the attributes the
  specification gives a booking.
\<close>

record booking_row =
  bk_id :: nat
  bk_infrastructure_id :: nat
  bk_booking_date :: nat
  bk_start_time :: nat
  bk_end_time :: nat
  bk_status :: string
  bk_requester :: string

record infrastructure_row =
  inf_id :: nat
  inf_name :: string

record db =
  email_action_tokens :: "token_row list"
  bookings :: "booking_row list"
  infrastructures :: "infrastructure_row list"

text \<open>The JSON responses of the endpoint: the HTTP status and the fields of the body.\<close>

record response =
  http_status :: nat
  success :: bool
  message :: string
  currentStatus :: "string option"
  action_field :: "string option"

text \<open>
  The calls that may throw: every awaited call on the pool, on the connection and on the
  email service.
\<close>

datatype op =
    GetConnection | BeginTransaction | SelectToken | SelectBooking | UpdateBooking
  | CallRejectProcedure | MarkTokenUsed | SelectInfrastructure | SendNotification
  | Commit | Rollback

text \<open>
  The trace of a request: one event for each call that completed, in the order of the
  calls, and \<open>EvFailed\<close> for the call that threw.
\<close>

datatype event =
    EvGetConnection
  | EvBegin
  | EvSelectToken string
  | EvSelectBooking nat
  | EvUpdateBooking nat
  | EvCallProcedure nat string
  | EvMarkUsed nat
  | EvSelectInfrastructure nat
  | EvNotify booking_row infrastructure_row string
  | EvCommit
  | EvRollback
  | EvRelease
  | EvFailed op

text \<open>
  What a request does not decide itself: the value of \<^verbatim>\<open>NOW()\<close> in the
  \<^verbatim>\<open>SELECT\<close> on tokens and in the \<^verbatim>\<open>UPDATE\<close> on tokens, and which
  of its calls throw.
\<close>

record env =
  now_select :: nat
  now_update :: nat
  fails :: "op \<Rightarrow> bool"

text \<open>
  The state of a request: the committed database, the working copy of the open
  transaction on the connection (\<open>None\<close> when no transaction is open), the trace and the
  response sent so far.
\<close>

record world =
  durable :: db
  tx :: "db option"
  trace :: "event list"
  sent :: "response option"

datatype completion = Throws world | Returns world

section \<open>The store\<close>

definition cur :: "world \<Rightarrow> db" where
  "cur w = (case tx w of Some d \<Rightarrow> d | None \<Rightarrow> durable w)"

definition store_write :: "(db \<Rightarrow> db) \<Rightarrow> world \<Rightarrow> world" where
  "store_write f w = (case tx w of Some d \<Rightarrow> w\<lparr>tx := Some (f d)\<rparr>
                           | None \<Rightarrow> w\<lparr>durable := f (durable w)\<rparr>)"

definition emit :: "event \<Rightarrow> world \<Rightarrow> world" where
  "emit ev w = w\<lparr>trace := trace w @ [ev]\<rparr>"

definition respond :: "response \<Rightarrow> world \<Rightarrow> world" where
  "respond r w = w\<lparr>sent := Some r\<rparr>"

text \<open>\<^verbatim>\<open>START TRANSACTION\<close> commits a transaction that is still open.\<close>

definition beginTransaction :: "world \<Rightarrow> world" where
  "beginTransaction w = w\<lparr>durable := cur w, tx := Some (cur w)\<rparr>"

definition commit :: "world \<Rightarrow> world" where
  "commit w = w\<lparr>durable := cur w, tx := None\<rparr>"

definition rollback :: "world \<Rightarrow> world" where
  "rollback w = w\<lparr>tx := None\<rparr>"

text \<open>
  \<^verbatim>\<open>SELECT * FROM email_action_tokens WHERE token = ? AND used = 0 AND expires > NOW()\<close>
\<close>

definition select_token :: "string \<Rightarrow> nat \<Rightarrow> db \<Rightarrow> token_row list" where
  "select_token token now d =
     filter (\<lambda>r. tok_token r = token \<and> \<not> tok_used r \<and> now < tok_expires r)
       (email_action_tokens d)"

text \<open>\<^verbatim>\<open>SELECT * FROM bookings WHERE id = ?\<close>\<close>

definition select_booking :: "nat \<Rightarrow> db \<Rightarrow> booking_row list" where
  "select_booking i d = filter (\<lambda>b. bk_id b = i) (bookings d)"

text \<open>\<^verbatim>\<open>SELECT * FROM infrastructures WHERE id = ?\<close>\<close>

definition select_infrastructure :: "nat \<Rightarrow> db \<Rightarrow> infrastructure_row list" where
  "select_infrastructure i d = filter (\<lambda>r. inf_id r = i) (infrastructures d)"

text \<open>\<^verbatim>\<open>UPDATE email_action_tokens SET used = 1, used_at = NOW() WHERE id = ?\<close>\<close>

definition mark_token_used :: "nat \<Rightarrow> nat \<Rightarrow> db \<Rightarrow> db" where
  "mark_token_used i now d =
     d\<lparr>email_action_tokens :=
         map (\<lambda>r. if tok_id r = i then r\<lparr>tok_used := True, tok_used_at := Some now\<rparr> else r)
           (email_action_tokens d)\<rparr>"

text \<open>\<^verbatim>\<open>UPDATE bookings SET status = "approved" WHERE id = ?\<close>\<close>

definition approve_booking :: "nat \<Rightarrow> db \<Rightarrow> db" where
  "approve_booking i d =
     d\<lparr>bookings := map (\<lambda>b. if bk_id b = i then b\<lparr>bk_status := ''approved''\<rparr> else b)
                     (bookings d)\<rparr>"

text \<open>
  Modelled from the spec: the key of a new booking record, which the schema (not part of
  the sources) generates; here the successor of the largest id of the table.
\<close>

definition fresh_booking_id :: "db \<Rightarrow> nat" where
  "fresh_booking_id d = Suc (fold max (map bk_id (bookings d)) 0)"

text \<open>
  Modelled from the spec: the stored procedure \<^verbatim>\<open>AdminRejectOrCancelBooking\<close>,
  which lives in the database schema and is not part of the sources. The specification
  calls it the resource-release primitive: the booking takes the given status, and its
  timeslot is freed back to \<open>available\<close> accounting, so that the window is listed again
  by \<open>listAvailable\<close>. A booking record in status \<open>rejected\<close> is terminal, so the freed
  window is a record of its own, in status \<open>available\<close>, for the same infrastructure,
  date, start and end, under a fresh id. Tokens and infrastructures are not touched, and
  an id that names no booking changes nothing.
\<close>

definition AdminRejectOrCancelBooking :: "nat \<Rightarrow> string \<Rightarrow> db \<Rightarrow> db" where
  "AdminRejectOrCancelBooking i new_status d =
     (case select_booking i d of
        [] \<Rightarrow> d
      | b # _ \<Rightarrow>
          d\<lparr>bookings :=
              map (\<lambda>r. if bk_id r = i then r\<lparr>bk_status := new_status\<rparr> else r) (bookings d)
              @ [b\<lparr>bk_id := fresh_booking_id d, bk_status := ''available'',
                    bk_requester := []\<rparr>]\<rparr>)"

text \<open>
  Modelled from the spec: \<open>listAvailable\<close> of the Availability Engine, which is not part
  of the sources: the records of an infrastructure in status \<open>available\<close>.
\<close>

definition listAvailable :: "nat \<Rightarrow> db \<Rightarrow> booking_row list" where
  "listAvailable infra d =
     filter (\<lambda>b. bk_infrastructure_id b = infra \<and> bk_status b = ''available'') (bookings d)"

section \<open>The responses\<close>

definition invalid_action_response :: response where
  "invalid_action_response =
     \<lparr>http_status = 400, success = False, message = ''Invalid action'',
      currentStatus = None, action_field = None\<rparr>"

definition invalid_token_response :: response where
  "invalid_token_response =
     \<lparr>http_status = 400, success = False,
      message = ''Invalid or expired email-action token'',
      currentStatus = None, action_field = None\<rparr>"

definition booking_not_found_response :: response where
  "booking_not_found_response =
     \<lparr>http_status = 404, success = False, message = ''Booking not found'',
      currentStatus = None, action_field = None\<rparr>"

definition already_processed_response :: "string \<Rightarrow> response" where
  "already_processed_response st =
     \<lparr>http_status = 400, success = False,
      message = ''This booking has already been processed. Its current status is: '' @ st,
      currentStatus = Some st, action_field = None\<rparr>"

definition outcome_of :: "string \<Rightarrow> string" where
  "outcome_of action = (if action = ''approve'' then ''approved'' else ''rejected'')"

definition success_response :: "string \<Rightarrow> response" where
  "success_response action =
     \<lparr>http_status = 200, success = True,
      message = ''Booking '' @ outcome_of action @ '' successfully'',
      currentStatus = None, action_field = Some action\<rparr>"

definition server_error_response :: response where
  "server_error_response =
     \<lparr>http_status = 500, success = False, message = ''Error processing the action'',
      currentStatus = None, action_field = None\<rparr>"

section \<open>The handler\<close>

text \<open>
  Lines 58 to 73: the booking has left \<open>pending\<close>. The token is marked used, the
  transaction is committed and the response carries the current status.
\<close>

definition already_processed :: "env \<Rightarrow> token_row \<Rightarrow> booking_row \<Rightarrow> world \<Rightarrow> completion" where
  "already_processed e tokenRecord booking w =
     (if fails e MarkTokenUsed then Throws (emit (EvFailed MarkTokenUsed) w)
      else
        let w1 = emit (EvMarkUsed (tok_id tokenRecord))
                   (store_write (mark_token_used (tok_id tokenRecord) (now_update e)) w)
        in if fails e Commit then Throws (emit (EvFailed Commit) w1)
           else Returns (respond (already_processed_response (bk_status booking))
                           (emit EvCommit (commit w1))))"

text \<open>Lines 75 to 88: the update of the booking, chosen by the action of the URL.\<close>

definition process_action :: "env \<Rightarrow> string \<Rightarrow> booking_row \<Rightarrow> world \<Rightarrow> completion" where
  "process_action e action booking w =
     (if action = ''approve'' then
        (if fails e UpdateBooking then Throws (emit (EvFailed UpdateBooking) w)
         else Returns (emit (EvUpdateBooking (bk_id booking))
                         (store_write (approve_booking (bk_id booking)) w)))
      else if action = ''reject'' then
        (if fails e CallRejectProcedure then Throws (emit (EvFailed CallRejectProcedure) w)
         else Returns (emit (EvCallProcedure (bk_id booking) ''rejected'')
                         (store_write (AdminRejectOrCancelBooking (bk_id booking) ''rejected'') w)))
      else Returns w)"

text \<open>
  Lines 96 to 118: the infrastructure is read, the email service is called when the
  infrastructure exists, then the transaction is committed and the success response sent.
\<close>

definition notify_and_commit :: "env \<Rightarrow> string \<Rightarrow> booking_row \<Rightarrow> world \<Rightarrow> completion" where
  "notify_and_commit e action booking w =
     (if fails e SelectInfrastructure then Throws (emit (EvFailed SelectInfrastructure) w)
      else
        let infrastructures = select_infrastructure (bk_infrastructure_id booking) (cur w);
            w1 = emit (EvSelectInfrastructure (bk_infrastructure_id booking)) w;
            sending =
              (case infrastructures of
                 [] \<Rightarrow> Returns w1
               | infrastructure # _ \<Rightarrow>
                   if fails e SendNotification then Throws (emit (EvFailed SendNotification) w1)
                   else Returns (emit (EvNotify booking infrastructure
                                        (if action = ''approve'' then ''approved'' else ''rejected''))
                                   w1))
        in case sending of
             Throws w2 \<Rightarrow> Throws w2
           | Returns w2 \<Rightarrow>
               if fails e Commit then Throws (emit (EvFailed Commit) w2)
               else Returns (respond (success_response action) (emit EvCommit (commit w2))))"

text \<open>Lines 75 to 118, the path of a booking in status \<open>pending\<close>.\<close>

definition process_pending :: "env \<Rightarrow> string \<Rightarrow> token_row \<Rightarrow> booking_row \<Rightarrow> world \<Rightarrow> completion" where
  "process_pending e action tokenRecord booking w =
     (case process_action e action booking w of
        Throws w1 \<Rightarrow> Throws w1
      | Returns w1 \<Rightarrow>
          if fails e MarkTokenUsed then Throws (emit (EvFailed MarkTokenUsed) w1)
          else notify_and_commit e action booking
                 (emit (EvMarkUsed (tok_id tokenRecord))
                    (store_write (mark_token_used (tok_id tokenRecord) (now_update e)) w1)))"

text \<open>
  Lines 23 to 118, the body of \<^verbatim>\<open>try\<close>. The two early returns (no token row, no
  booking row) send their response and leave the block with the transaction as it is.
\<close>

definition try_body :: "env \<Rightarrow> string \<Rightarrow> string \<Rightarrow> world \<Rightarrow> completion" where
  "try_body e action token w =
     (if fails e BeginTransaction then Throws (emit (EvFailed BeginTransaction) w)
      else
        let w1 = emit EvBegin (beginTransaction w)
        in if fails e SelectToken then Throws (emit (EvFailed SelectToken) w1)
           else
             let tokens = select_token token (now_select e) (cur w1);
                 w2 = emit (EvSelectToken token) w1
             in case tokens of
                  [] \<Rightarrow> Returns (respond invalid_token_response w2)
                | tokenRecord # _ \<Rightarrow>
                    if fails e SelectBooking then Throws (emit (EvFailed SelectBooking) w2)
                    else
                      let bookings = select_booking (tok_booking_id tokenRecord) (cur w2);
                          w3 = emit (EvSelectBooking (tok_booking_id tokenRecord)) w2
                      in (case bookings of
                            [] \<Rightarrow> Returns (respond booking_not_found_response w3)
                          | booking # _ \<Rightarrow>
                              if bk_status booking \<noteq> ''pending''
                              then already_processed e tokenRecord booking w3
                              else process_pending e action tokenRecord booking w3))"

text \<open>
  Lines 119 to 125, the \<^verbatim>\<open>catch\<close> block: roll back, then answer 500. When the
  rollback itself throws, no response is sent.
\<close>

definition catch_block :: "env \<Rightarrow> world \<Rightarrow> world" where
  "catch_block e w =
     (if fails e Rollback then emit (EvFailed Rollback) w
      else respond server_error_response (emit EvRollback (rollback w)))"

text \<open>
  The handler of \<^verbatim>\<open>GET /:action/:token\<close>, run on a committed database with a
  connection that has no open transaction. The pool's \<^verbatim>\<open>getConnection\<close> is
  outside \<^verbatim>\<open>try\<close>: when it throws, nothing is sent. \<^verbatim>\<open>finally\<close> releases
  the connection on every path through \<^verbatim>\<open>try\<close>.
\<close>

definition handler :: "env \<Rightarrow> string \<Rightarrow> string \<Rightarrow> db \<Rightarrow> world" where
  "handler e action token d =
     (let w0 = \<lparr>durable = d, tx = None, trace = [], sent = None\<rparr>
      in if action \<noteq> ''approve'' \<and> action \<noteq> ''reject''
         then respond invalid_action_response w0
         else if fails e GetConnection then emit (EvFailed GetConnection) w0
         else
           emit EvRelease
             (case try_body e action token (emit EvGetConnection w0) of
                Returns w \<Rightarrow> w
              | Throws w \<Rightarrow> catch_block e w))"

section \<open>Concrete requests\<close>

text \<open>
  The scenarios of the specification, as data. Booking 42 is pending on infrastructure 5
  and token \<open>T1\<close> is bound to (42, approve); booking 7 is already approved and token
  \<open>T2\<close> is bound to (7, reject); token \<open>T3\<close> names booking 99, which does not exist;
  booking 43 is pending on infrastructure 6, of which there is no record, and token
  \<open>T4\<close> is bound to (43, approve).
\<close>

definition env_ok :: env where
  "env_ok = \<lparr>now_select = 100, now_update = 101, fails = (\<lambda>_. False)\<rparr>"

definition env_failing :: "op \<Rightarrow> env" where
  "env_failing x = \<lparr>now_select = 100, now_update = 101, fails = (\<lambda>y. y = x)\<rparr>"

definition token_T1 :: token_row where
  "token_T1 = \<lparr>tok_id = 1, tok_token = ''T1'', tok_booking_id = 42, tok_action = ''approve'',
                tok_used = False, tok_used_at = None, tok_expires = 200\<rparr>"

definition token_T2 :: token_row where
  "token_T2 = \<lparr>tok_id = 2, tok_token = ''T2'', tok_booking_id = 7, tok_action = ''reject'',
                tok_used = False, tok_used_at = None, tok_expires = 200\<rparr>"

definition token_T3 :: token_row where
  "token_T3 = \<lparr>tok_id = 3, tok_token = ''T3'', tok_booking_id = 99, tok_action = ''approve'',
                tok_used = False, tok_used_at = None, tok_expires = 200\<rparr>"

definition token_T4 :: token_row where
  "token_T4 = \<lparr>tok_id = 4, tok_token = ''T4'', tok_booking_id = 43, tok_action = ''approve'',
                tok_used = False, tok_used_at = None, tok_expires = 200\<rparr>"

definition booking_42 :: booking_row where
  "booking_42 = \<lparr>bk_id = 42, bk_infrastructure_id = 5, bk_booking_date = 20, bk_start_time = 9,
                  bk_end_time = 10, bk_status = ''pending'', bk_requester = ''ada''\<rparr>"

definition booking_7 :: booking_row where
  "booking_7 = \<lparr>bk_id = 7, bk_infrastructure_id = 5, bk_booking_date = 21, bk_start_time = 9,
                 bk_end_time = 10, bk_status = ''approved'', bk_requester = ''bob''\<rparr>"

definition booking_43 :: booking_row where
  "booking_43 = \<lparr>bk_id = 43, bk_infrastructure_id = 6, bk_booking_date = 22, bk_start_time = 9,
                  bk_end_time = 10, bk_status = ''pending'', bk_requester = ''eve''\<rparr>"

definition infrastructure_5 :: infrastructure_row where
  "infrastructure_5 = \<lparr>inf_id = 5, inf_name = ''lab''\<rparr>"

definition db_example :: db where
  "db_example =
     \<lparr>email_action_tokens = [token_T1, token_T2, token_T3, token_T4],
      bookings = [booking_7, booking_42, booking_43],
      infrastructures = [infrastructure_5]\<rparr>"

section \<open>Vocabulary of the statements\<close>

text \<open>\<open>succeed e xs\<close>: none of the calls \<open>xs\<close> throws in the request.\<close>

definition succeed :: "env \<Rightarrow> op list \<Rightarrow> bool" where
  "succeed e xs = list_all (\<lambda>x. \<not> fails e x) xs"

text \<open>
  The update of lines 76 to 88 as a function on the database, and the event it leaves in
  the trace: the \<^verbatim>\<open>UPDATE\<close> for \<open>approve\<close>, the stored procedure otherwise.
\<close>

definition transition :: "string \<Rightarrow> nat \<Rightarrow> db \<Rightarrow> db" where
  "transition action i d =
     (if action = ''approve'' then approve_booking i d
      else AdminRejectOrCancelBooking i ''rejected'' d)"

definition transition_event :: "string \<Rightarrow> nat \<Rightarrow> event" where
  "transition_event action i =
     (if action = ''approve'' then EvUpdateBooking i else EvCallProcedure i ''rejected'')"

text \<open>
  The events of lines 102 to 109: one call of the email service when the infrastructure
  of the booking has a record, none otherwise.
\<close>

definition notification :: "booking_row \<Rightarrow> string \<Rightarrow> db \<Rightarrow> event list" where
  "notification b action d =
     (case select_infrastructure (bk_infrastructure_id b) d of
        [] \<Rightarrow> []
      | i # _ \<Rightarrow> [EvNotify b i (outcome_of action)])"

text \<open>
  A trace in which the email service is only called after a commit: the flag tells
  whether a commit has been seen.
\<close>

fun notify_only_after_commit :: "bool \<Rightarrow> event list \<Rightarrow> bool" where
  "notify_only_after_commit committed [] = True"
| "notify_only_after_commit committed (EvCommit # es) = notify_only_after_commit True es"
| "notify_only_after_commit committed (EvNotify b i out # es) =
     (committed \<and> notify_only_after_commit committed es)"
| "notify_only_after_commit committed (ev # es) = notify_only_after_commit committed es"

text \<open>
  The database with the bound action of every token replaced: \<open>f\<close> gives the action
  bound to the token with a given id.
\<close>

definition rebind :: "(nat \<Rightarrow> string) \<Rightarrow> db \<Rightarrow> db" where
  "rebind f d =
     d\<lparr>email_action_tokens :=
         map (\<lambda>r. r\<lparr>tok_action := f (tok_id r)\<rparr>) (email_action_tokens d)\<rparr>"

section \<open>Unfolding the handler\<close>

lemmas hdefs = handler_def try_body_def process_pending_def notify_and_commit_def
  process_action_def already_processed_def catch_block_def

lemmas sdefs = cur_def store_write_def emit_def respond_def beginTransaction_def commit_def
  rollback_def

lemmas qdefs = select_token_def select_booking_def select_infrastructure_def
  mark_token_used_def approve_booking_def AdminRejectOrCancelBooking_def fresh_booking_id_def

lemmas fdefs = env_ok_def env_failing_def token_T1_def token_T2_def token_T3_def token_T4_def
  booking_42_def booking_7_def booking_43_def infrastructure_5_def db_example_def

section \<open>Facts about the store\<close>

lemma fold_max_start: "a \<le> fold max ys (a::nat)"
proof (induction ys arbitrary: a)
  case Nil
  show ?case by simp
next
  case (Cons y ys)
  have "a \<le> max y a" by simp
  also have "max y a \<le> fold max ys (max y a)" by (rule Cons.IH)
  finally show ?case by simp
qed

lemma fold_max_ge: "x \<in> set xs \<Longrightarrow> x \<le> fold max xs (a::nat)"
proof (induction xs arbitrary: a)
  case Nil
  then show ?case by simp
next
  case (Cons y ys)
  show ?case
  proof (cases "x = y")
    case True
    have "y \<le> max y a" by simp
    also have "max y a \<le> fold max ys (max y a)" by (rule fold_max_start)
    finally show ?thesis using True by simp
  next
    case False
    with Cons.prems have "x \<in> set ys" by simp
    then show ?thesis using Cons.IH by simp
  qed
qed

lemma fresh_booking_id_gt: "r \<in> set (bookings d) \<Longrightarrow> bk_id r < fresh_booking_id d"
  using fold_max_ge [of "bk_id r" "map bk_id (bookings d)" 0]
  by (simp add: fresh_booking_id_def less_Suc_eq_le)

lemma infrastructures_mark_token_used [simp]:
  "infrastructures (mark_token_used i n d) = infrastructures d"
  by (simp add: mark_token_used_def)

lemma infrastructures_approve_booking [simp]:
  "infrastructures (approve_booking i d) = infrastructures d"
  by (simp add: approve_booking_def)

lemma infrastructures_reject [simp]:
  "infrastructures (AdminRejectOrCancelBooking i s d) = infrastructures d"
  by (simp add: AdminRejectOrCancelBooking_def split: list.splits)

lemma select_infrastructure_after [simp]:
  "select_infrastructure i (mark_token_used j n d) = select_infrastructure i d"
  "select_infrastructure i (approve_booking k d) = select_infrastructure i d"
  "select_infrastructure i (AdminRejectOrCancelBooking k s d) = select_infrastructure i d"
  by (simp_all add: select_infrastructure_def)

lemma bookings_mark_token_used [simp]: "bookings (mark_token_used i n d) = bookings d"
  by (simp add: mark_token_used_def)

lemma listAvailable_mark_token_used [simp]:
  "listAvailable k (mark_token_used i n d) = listAvailable k d"
  by (simp add: listAvailable_def)

lemma select_booking_id: "select_booking i d = b # bs \<Longrightarrow> bk_id b = i \<and> b \<in> set (bookings d)"
proof -
  assume "select_booking i d = b # bs"
  then have "b \<in> set (filter (\<lambda>b. bk_id b = i) (bookings d))"
    by (simp add: select_booking_def)
  then show ?thesis by simp
qed

lemma reject_sets_status:
  assumes "b \<in> set (bookings d)"
    and "r \<in> set (bookings (AdminRejectOrCancelBooking (bk_id b) s d))"
    and "bk_id r = bk_id b"
  shows "bk_status r = s"
proof -
  have "fresh_booking_id d \<noteq> bk_id b"
    using fresh_booking_id_gt [OF assms(1)] by simp
  moreover have "select_booking (bk_id b) d \<noteq> []"
    using assms(1) by (auto simp add: select_booking_def filter_empty_conv)
  ultimately show ?thesis
    using assms(2,3)
    by (auto simp add: AdminRejectOrCancelBooking_def split: list.splits)
qed

lemma reject_frees_window:
  assumes "select_booking i d = b # bs"
  shows "b\<lparr>bk_id := fresh_booking_id d, bk_status := ''available'', bk_requester := []\<rparr>
           \<in> set (listAvailable (bk_infrastructure_id b) (AdminRejectOrCancelBooking i s d))"
  using assms by (simp add: AdminRejectOrCancelBooking_def listAvailable_def)

lemma tokens_approve_booking [simp]:
  "email_action_tokens (approve_booking i d) = email_action_tokens d"
  by (simp add: approve_booking_def)

lemma tokens_reject [simp]:
  "email_action_tokens (AdminRejectOrCancelBooking i s d) = email_action_tokens d"
  by (simp add: AdminRejectOrCancelBooking_def split: list.splits)

lemma tokens_transition [simp]:
  "email_action_tokens (transition action i d) = email_action_tokens d"
  by (simp add: transition_def)

lemma select_token_rebind:
  "select_token token n (rebind f d)
     = map (\<lambda>r. r\<lparr>tok_action := f (tok_id r)\<rparr>) (select_token token n d)"
  by (simp add: select_token_def rebind_def filter_map comp_def)

lemma select_booking_rebind [simp]: "select_booking i (rebind f d) = select_booking i d"
  by (simp add: select_booking_def rebind_def)

lemma select_infrastructure_rebind [simp]:
  "select_infrastructure i (rebind f d) = select_infrastructure i d"
  by (simp add: select_infrastructure_def rebind_def)

lemma mark_token_used_rebind [simp]:
  "mark_token_used i n (rebind f d) = rebind f (mark_token_used i n d)"
  by (simp add: mark_token_used_def rebind_def)

lemma approve_booking_rebind [simp]:
  "approve_booking i (rebind f d) = rebind f (approve_booking i d)"
  by (simp add: approve_booking_def rebind_def)

lemma reject_rebind [simp]:
  "AdminRejectOrCancelBooking i s (rebind f d) = rebind f (AdminRejectOrCancelBooking i s d)"
proof -
  have "fresh_booking_id (rebind f d) = fresh_booking_id d"
    by (simp add: fresh_booking_id_def rebind_def)
  then show ?thesis
    by (cases "select_booking i d")
       (simp_all add: AdminRejectOrCancelBooking_def, simp_all add: rebind_def)
qed

lemma consumed_token_not_selected:
  assumes uniq: "distinct (map tok_token (email_action_tokens d))"
    and sel: "select_token token n d = t # ts"
    and toks: "email_action_tokens d' = email_action_tokens (mark_token_used (tok_id t) m d)"
  shows "select_token token n' d' = []"
proof -
  have "t \<in> set (select_token token n d)" using sel by simp
  then have t: "t \<in> set (email_action_tokens d)" "tok_token t = token"
    by (simp_all add: select_token_def)
  have "\<forall>r \<in> set (email_action_tokens d). tok_token r = token \<longrightarrow> r = t"
    using uniq t by (auto simp add: distinct_map dest: inj_onD)
  then show ?thesis
    by (auto simp add: select_token_def toks mark_token_used_def filter_empty_conv)
qed

lemma mark_token_used_marks:
  "\<forall>r \<in> set (email_action_tokens (mark_token_used (tok_id t) n d)).
     tok_id r = tok_id t \<longrightarrow> tok_used r"
  by (auto simp add: mark_token_used_def)

lemma mark_token_used_row:
  assumes "t \<in> set (email_action_tokens d)"
  shows "t\<lparr>tok_used := True, tok_used_at := Some n\<rparr>
           \<in> set (email_action_tokens (mark_token_used (tok_id t) n d))"
proof -
  let ?f = "\<lambda>r. if tok_id r = tok_id t then r\<lparr>tok_used := True, tok_used_at := Some n\<rparr> else r"
  have "?f t \<in> ?f ` set (email_action_tokens d)"
    using assms by (rule imageI)
  then show ?thesis by (simp add: mark_token_used_def)
qed

lemma select_token_mem: "select_token token n d = t # ts \<Longrightarrow> t \<in> set (email_action_tokens d)"
proof -
  assume "select_token token n d = t # ts"
  then have "t \<in> set (select_token token n d)" by simp
  then show ?thesis by (simp add: select_token_def)
qed

lemma approve_sets_status:
  "\<forall>r \<in> set (bookings (approve_booking (bk_id b) d)).
     bk_id r = bk_id b \<longrightarrow> bk_status r = ''approved''"
  by (auto simp add: approve_booking_def)

lemma approve_row:
  assumes "b \<in> set (bookings d)"
  shows "b\<lparr>bk_status := ''approved''\<rparr> \<in> set (bookings (approve_booking (bk_id b) d))"
proof -
  let ?f = "\<lambda>r. if bk_id r = bk_id b then r\<lparr>bk_status := ''approved''\<rparr> else r"
  have "?f b \<in> ?f ` set (bookings d)"
    using assms by (rule imageI)
  then show ?thesis by (simp add: approve_booking_def)
qed

lemma reject_row:
  assumes "select_booking i d = b # bs"
  shows "b\<lparr>bk_status := s\<rparr> \<in> set (bookings (AdminRejectOrCancelBooking i s d))"
proof -
  let ?f = "\<lambda>r. if bk_id r = i then r\<lparr>bk_status := s\<rparr> else r"
  from select_booking_id [OF assms] have i: "bk_id b = i" and mem: "b \<in> set (bookings d)"
    by simp_all
  have "?f b \<in> ?f ` set (bookings d)"
    using mem by (rule imageI)
  then have "b\<lparr>bk_status := s\<rparr> \<in> ?f ` set (bookings d)"
    using i by simp
  then show ?thesis
    using assms by (simp add: AdminRejectOrCancelBooking_def)
qed

lemma approve_releases_nothing:
  "set (listAvailable k (approve_booking i d)) \<subseteq> set (listAvailable k d)"
proof
  fix x
  assume "x \<in> set (listAvailable k (approve_booking i d))"
  then obtain r where r: "r \<in> set (bookings d)"
      and x: "x = (if bk_id r = i then r\<lparr>bk_status := ''approved''\<rparr> else r)"
      and av: "bk_infrastructure_id x = k" "bk_status x = ''available''"
    unfolding listAvailable_def approve_booking_def by auto
  have "bk_id r \<noteq> i"
  proof
    assume "bk_id r = i"
    with x have "bk_status x = ''approved''" by simp
    with av show False by simp
  qed
  with x have "x = r" by simp
  with r av show "x \<in> set (listAvailable k d)"
    by (simp add: listAvailable_def)
qed

section \<open>The path of a pending booking\<close>

text \<open>
  When no call throws, the token selects a row and the row's booking is pending, the
  handler runs lines 75 to 118 to the end.
\<close>

lemma success_path:
  assumes "action = ''approve'' \<or> action = ''reject''"
    and "succeed e [GetConnection, BeginTransaction, SelectToken, SelectBooking, UpdateBooking,
                    CallRejectProcedure, MarkTokenUsed, SelectInfrastructure, SendNotification,
                    Commit]"
    and "select_token token (now_select e) d = t # ts"
    and "select_booking (tok_booking_id t) d = b # bs"
    and "bk_status b = ''pending''"
  shows "handler e action token d =
           \<lparr>durable = mark_token_used (tok_id t) (now_update e) (transition action (bk_id b) d),
            tx = None,
            trace = [EvGetConnection, EvBegin, EvSelectToken token,
                     EvSelectBooking (tok_booking_id t), transition_event action (bk_id b),
                     EvMarkUsed (tok_id t), EvSelectInfrastructure (bk_infrastructure_id b)]
                    @ notification b action d @ [EvCommit, EvRelease],
            sent = Some (success_response action)\<rparr>"
  using assms
  by (auto simp add: hdefs sdefs succeed_def transition_def transition_event_def notification_def
        outcome_of_def split: list.splits)

text \<open>
  The same path up to the update of the booking: the handler has begun its transaction
  and has written the transition into it, and goes on with the consumption of the token.
\<close>

lemma pending_prefix:
  assumes "action = ''approve'' \<or> action = ''reject''"
    and "succeed e [GetConnection, BeginTransaction, SelectToken, SelectBooking, UpdateBooking,
                    CallRejectProcedure]"
    and "select_token token (now_select e) d = t # ts"
    and "select_booking (tok_booking_id t) d = b # bs"
    and "bk_status b = ''pending''"
  shows "handler e action token d =
           emit EvRelease
             (case (if fails e MarkTokenUsed
                    then Throws \<lparr>durable = d, tx = Some (transition action (bk_id b) d),
                                  trace = [EvGetConnection, EvBegin, EvSelectToken token,
                                           EvSelectBooking (tok_booking_id t),
                                           transition_event action (bk_id b),
                                           EvFailed MarkTokenUsed],
                                  sent = None\<rparr>
                    else notify_and_commit e action b
                           \<lparr>durable = d,
                            tx = Some (mark_token_used (tok_id t) (now_update e)
                                         (transition action (bk_id b) d)),
                            trace = [EvGetConnection, EvBegin, EvSelectToken token,
                                     EvSelectBooking (tok_booking_id t),
                                     transition_event action (bk_id b), EvMarkUsed (tok_id t)],
                            sent = None\<rparr>) of
                Returns w \<Rightarrow> w
              | Throws w \<Rightarrow> catch_block e w)"
  using assms
  by (auto simp add: handler_def try_body_def process_pending_def process_action_def sdefs
        succeed_def transition_def transition_event_def)

text \<open>
  When a call after the update of the booking throws (marking the token, reading the
  infrastructure or the commit), the \<^verbatim>\<open>catch\<close> block rolls the transaction back:
  the committed database is the one the request found, and the response is 500.
\<close>

lemma later_failure_rolls_back:
  assumes act: "action = ''approve'' \<or> action = ''reject''"
    and ok: "succeed e [GetConnection, BeginTransaction, SelectToken, SelectBooking, UpdateBooking,
                    CallRejectProcedure]"
    and tok: "select_token token (now_select e) d = t # ts"
    and bk: "select_booking (tok_booking_id t) d = b # bs"
    and pending: "bk_status b = ''pending''"
    and later: "fails e MarkTokenUsed \<or> fails e SelectInfrastructure \<or> fails e Commit"
    and rb: "\<not> fails e Rollback"
  shows "durable (handler e action token d) = d
         \<and> tx (handler e action token d) = None
         \<and> sent (handler e action token d) = Some server_error_response
         \<and> transition_event action (bk_id b) \<in> set (trace (handler e action token d))
         \<and> EvRollback \<in> set (trace (handler e action token d))
         \<and> EvCommit \<notin> set (trace (handler e action token d))"
proof (cases "fails e MarkTokenUsed")
  case True
  then show ?thesis
    unfolding pending_prefix [OF act ok tok bk pending] using rb
    by (simp add: catch_block_def sdefs transition_event_def)
next
  case False
  note mark = this
  show ?thesis
  proof (cases "fails e SelectInfrastructure")
    case True
    then show ?thesis
      unfolding pending_prefix [OF act ok tok bk pending] using rb mark
      by (simp add: catch_block_def notify_and_commit_def sdefs transition_event_def)
  next
    case False
    with later mark have "fails e Commit" by simp
    then show ?thesis
      unfolding pending_prefix [OF act ok tok bk pending] using rb mark False
      by (simp add: catch_block_def notify_and_commit_def sdefs transition_event_def Let_def
            split: list.splits)
  qed
qed

text \<open>
  Conversely, the success response is only sent at line 114: the token selected a row,
  and the committed token table is the one found with that row's id marked used.
\<close>

lemma success_inversion:
  assumes "sent (handler e action token d) = Some (success_response action)"
  shows "(action = ''approve'' \<or> action = ''reject'')
         \<and> (\<exists>t ts. select_token token (now_select e) d = t # ts
              \<and> email_action_tokens (durable (handler e action token d))
                  = email_action_tokens (mark_token_used (tok_id t) (now_update e) d))"
proof (cases "select_token token (now_select e) d")
  case Nil
  with assms show ?thesis
    by (auto simp add: hdefs sdefs Let_def invalid_token_response_def invalid_action_response_def
          success_response_def server_error_response_def split: if_splits)
next
  case (Cons t ts)
  with assms show ?thesis
    by (auto simp add: hdefs sdefs Let_def booking_not_found_response_def
          invalid_action_response_def already_processed_response_def success_response_def
          server_error_response_def mark_token_used_def
        split: if_splits list.splits)
qed

text \<open>When the token selects no row, the response is the one of line 32, if any.\<close>

lemma no_token_row:
  assumes "action = ''approve'' \<or> action = ''reject''"
    and "select_token token (now_select e) d = []"
  shows "(succeed e [GetConnection, BeginTransaction, SelectToken]
            \<longrightarrow> sent (handler e action token d) = Some invalid_token_response)
         \<and> sent (handler e action token d)
             \<in> {None, Some server_error_response, Some invalid_token_response}"
  using assms by (auto simp add: hdefs sdefs succeed_def Let_def)

section \<open>Invalid action\<close>

text \<open>
  C9. A request whose action segment is neither \<open>approve\<close> nor \<open>reject\<close> is answered
  400 with \<open>success = false\<close> and the message of an invalid action; no call is made on
  the pool, the connection or the email service (the trace is empty), the database is
  the one the request found and no transaction is open.
\<close>

theorem invalid_action_rejected:
  assumes "action \<noteq> ''approve''" and "action \<noteq> ''reject''"
  shows "handler e action token d =
           \<lparr>durable = d, tx = None, trace = [], sent = Some invalid_action_response\<rparr>
         \<and> http_status invalid_action_response = 400
         \<and> \<not> success invalid_action_response"
  using assms by (simp add: handler_def respond_def invalid_action_response_def)

theorem invalid_action_rejected_witness:
  "''cancel'' \<noteq> ''approve'' \<and> ''cancel'' \<noteq> ''reject''
   \<and> handler env_ok ''cancel'' ''T1'' db_example =
         \<lparr>durable = db_example, tx = None, trace = [], sent = Some invalid_action_response\<rparr>"
  using invalid_action_rejected [of "''cancel''" env_ok "''T1''" db_example] by simp

section \<open>Token validation\<close>

text \<open>
  C6. For a request with a recognised action whose first three calls (connection, begin,
  select) do not throw, the response is the one of an invalid or expired token exactly
  when the table holds no row with this token value, \<open>used\<close> false and \<open>expires\<close>
  strictly later than now. The response is one constant: a token that is not found, one
  that is used and one that has expired are answered alike.
\<close>

theorem token_validation_collapses:
  assumes "action = ''approve'' \<or> action = ''reject''"
    and "succeed e [GetConnection, BeginTransaction, SelectToken]"
  shows "sent (handler e action token d) = Some invalid_token_response
         \<longleftrightarrow> \<not> (\<exists>r \<in> set (email_action_tokens d).
                   tok_token r = token \<and> \<not> tok_used r \<and> now_select e < tok_expires r)"
proof -
  have "select_token token (now_select e) d = []
        \<longleftrightarrow> \<not> (\<exists>r \<in> set (email_action_tokens d).
                   tok_token r = token \<and> \<not> tok_used r \<and> now_select e < tok_expires r)"
    by (auto simp add: select_token_def filter_empty_conv)
  moreover have "sent (handler e action token d) = Some invalid_token_response
        \<longleftrightarrow> select_token token (now_select e) d = []"
    using assms
    by (auto simp add: hdefs sdefs succeed_def Let_def invalid_token_response_def
          booking_not_found_response_def already_processed_response_def success_response_def
          server_error_response_def
        split: list.splits completion.splits)
  ultimately show ?thesis by simp
qed

theorem token_validation_collapses_witness:
  "sent (handler env_ok ''approve'' ''T9'' db_example) = Some invalid_token_response
   \<and> sent (handler env_ok ''approve'' ''T1'' db_example) \<noteq> Some invalid_token_response"
  using token_validation_collapses [of "''approve''" env_ok "''T9''" db_example]
    token_validation_collapses [of "''approve''" env_ok "''T1''" db_example]
  by (simp add: succeed_def fdefs)

section \<open>A booking that has left pending\<close>

text \<open>
  C3. When the token selects a row, the row's booking exists and its status is not
  \<open>pending\<close>, and no call throws, the handler marks the token used, commits, and answers
  400 with the message of an already processed booking and the booking's status in
  \<open>currentStatus\<close>. The committed database differs from the one found only in the
  token table: the bookings are the same, and every token row with the id of the selected
  row is used.
\<close>

theorem non_pending_consumes_token:
  assumes "action = ''approve'' \<or> action = ''reject''"
    and "succeed e [GetConnection, BeginTransaction, SelectToken, SelectBooking, MarkTokenUsed,
                    Commit]"
    and "select_token token (now_select e) d = t # ts"
    and "select_booking (tok_booking_id t) d = b # bs"
    and "bk_status b \<noteq> ''pending''"
  shows "handler e action token d =
           \<lparr>durable = mark_token_used (tok_id t) (now_update e) d, tx = None,
            trace = [EvGetConnection, EvBegin, EvSelectToken token,
                     EvSelectBooking (tok_booking_id t), EvMarkUsed (tok_id t), EvCommit,
                     EvRelease],
            sent = Some (already_processed_response (bk_status b))\<rparr>
         \<and> bookings (durable (handler e action token d)) = bookings d
         \<and> infrastructures (durable (handler e action token d)) = infrastructures d
         \<and> (\<forall>r \<in> set (email_action_tokens (durable (handler e action token d))).
               tok_id r = tok_id t \<longrightarrow> tok_used r)
         \<and> t\<lparr>tok_used := True, tok_used_at := Some (now_update e)\<rparr>
               \<in> set (email_action_tokens (durable (handler e action token d)))
         \<and> http_status (already_processed_response (bk_status b)) = 400
         \<and> currentStatus (already_processed_response (bk_status b)) = Some (bk_status b)"
proof -
  have run: "handler e action token d =
           \<lparr>durable = mark_token_used (tok_id t) (now_update e) d, tx = None,
            trace = [EvGetConnection, EvBegin, EvSelectToken token,
                     EvSelectBooking (tok_booking_id t), EvMarkUsed (tok_id t), EvCommit,
                     EvRelease],
            sent = Some (already_processed_response (bk_status b))\<rparr>"
    using assms by (auto simp add: hdefs sdefs succeed_def)
  have "t \<in> set (select_token token (now_select e) d)"
    using assms(3) by simp
  then have mem: "t \<in> set (email_action_tokens d)"
    by (simp add: select_token_def)
  have used: "\<forall>r \<in> set (email_action_tokens (mark_token_used (tok_id t) (now_update e) d)).
                tok_id r = tok_id t \<longrightarrow> tok_used r"
    by (auto simp add: mark_token_used_def)
  have marked: "t\<lparr>tok_used := True, tok_used_at := Some (now_update e)\<rparr>
                  \<in> set (email_action_tokens (mark_token_used (tok_id t) (now_update e) d))"
    using mem by (force simp add: mark_token_used_def)
  show ?thesis
    unfolding run using used marked by (simp add: already_processed_response_def)
qed

theorem non_pending_consumes_token_witness:
  "bk_status booking_7 \<noteq> ''pending''
   \<and> handler env_ok ''reject'' ''T2'' db_example =
       \<lparr>durable = mark_token_used 2 101 db_example, tx = None,
        trace = [EvGetConnection, EvBegin, EvSelectToken ''T2'', EvSelectBooking 7,
                 EvMarkUsed 2, EvCommit, EvRelease],
        sent = Some (already_processed_response ''approved'')\<rparr>"
  using non_pending_consumes_token [of "''reject''" env_ok "''T2''" db_example token_T2 "[]"
          booking_7 "[]"]
  by (simp add: succeed_def qdefs fdefs)

section \<open>Approve and reject\<close>

text \<open>
  C7. For a pending booking reached with a valid token, the update of the booking is
  part of the one transaction of the request. When the remaining calls succeed, the
  action \<open>approve\<close> commits the update that sets the status of the booking to
  \<open>approved\<close>: the stored procedure is not called, no booking record is added and no
  infrastructure gains an available record. The action \<open>reject\<close> calls the stored
  procedure with the id of the booking and the status \<open>rejected\<close>, between the begin
  and the commit; in the committed database the booking is \<open>rejected\<close> and its window
  (date, start, end) is among the available records of its infrastructure. When instead
  a later call of the request throws (marking the token, reading the infrastructure or
  the commit), the update or the procedure call has been made and is rolled back with
  everything else: the committed database is the one the request found and the response
  is 500. The effect of the procedure is the one the specification gives the
  resource-release primitive.
\<close>

theorem pending_transition_effects:
  assumes ok: "succeed e [GetConnection, BeginTransaction, SelectToken, SelectBooking,
                          UpdateBooking, CallRejectProcedure]"
    and tok: "select_token token (now_select e) d = t # ts"
    and bk: "select_booking (tok_booking_id t) d = b # bs"
    and pending: "bk_status b = ''pending''"
  shows "(succeed e [MarkTokenUsed, SelectInfrastructure, SendNotification, Commit] \<longrightarrow>
           (let w = handler e ''approve'' token d in
              durable w = mark_token_used (tok_id t) (now_update e) (approve_booking (bk_id b) d)
            \<and> (\<forall>r \<in> set (bookings (durable w)). bk_id r = bk_id b \<longrightarrow> bk_status r = ''approved'')
            \<and> b\<lparr>bk_status := ''approved''\<rparr> \<in> set (bookings (durable w))
            \<and> length (bookings (durable w)) = length (bookings d)
            \<and> (\<forall>k. set (listAvailable k (durable w)) \<subseteq> set (listAvailable k d))
            \<and> (\<forall>i s. EvCallProcedure i s \<notin> set (trace w))
            \<and> trace w = [EvGetConnection, EvBegin, EvSelectToken token,
                          EvSelectBooking (tok_booking_id t), EvUpdateBooking (bk_id b),
                          EvMarkUsed (tok_id t), EvSelectInfrastructure (bk_infrastructure_id b)]
                         @ notification b ''approve'' d @ [EvCommit, EvRelease]
            \<and> tx w = None
            \<and> sent w = Some (success_response ''approve''))
         \<and> (let w = handler e ''reject'' token d in
              durable w = mark_token_used (tok_id t) (now_update e)
                            (AdminRejectOrCancelBooking (bk_id b) ''rejected'' d)
            \<and> (\<forall>r \<in> set (bookings (durable w)). bk_id r = bk_id b \<longrightarrow> bk_status r = ''rejected'')
            \<and> b\<lparr>bk_status := ''rejected''\<rparr> \<in> set (bookings (durable w))
            \<and> (\<exists>r \<in> set (listAvailable (bk_infrastructure_id b) (durable w)).
                   bk_booking_date r = bk_booking_date b \<and> bk_start_time r = bk_start_time b
                   \<and> bk_end_time r = bk_end_time b)
            \<and> trace w = [EvGetConnection, EvBegin, EvSelectToken token,
                          EvSelectBooking (tok_booking_id t),
                          EvCallProcedure (bk_id b) ''rejected'',
                          EvMarkUsed (tok_id t), EvSelectInfrastructure (bk_infrastructure_id b)]
                         @ notification b ''reject'' d @ [EvCommit, EvRelease]
            \<and> tx w = None
            \<and> sent w = Some (success_response ''reject'')))
       \<and> ((fails e MarkTokenUsed \<or> fails e SelectInfrastructure \<or> fails e Commit)
            \<and> \<not> fails e Rollback \<longrightarrow>
           (let w = handler e ''approve'' token d in
              durable w = d \<and> tx w = None \<and> sent w = Some server_error_response
            \<and> EvUpdateBooking (bk_id b) \<in> set (trace w)
            \<and> EvRollback \<in> set (trace w) \<and> EvCommit \<notin> set (trace w))
         \<and> (let w = handler e ''reject'' token d in
              durable w = d \<and> tx w = None \<and> sent w = Some server_error_response
            \<and> EvCallProcedure (bk_id b) ''rejected'' \<in> set (trace w)
            \<and> EvRollback \<in> set (trace w) \<and> EvCommit \<notin> set (trace w)))"
proof (intro conjI impI)
  assume rest: "succeed e [MarkTokenUsed, SelectInfrastructure, SendNotification, Commit]"
  with ok have all: "succeed e [GetConnection, BeginTransaction, SelectToken, SelectBooking,
                       UpdateBooking, CallRejectProcedure, MarkTokenUsed, SelectInfrastructure,
                       SendNotification, Commit]"
    by (simp add: succeed_def)
  from select_booking_id [OF bk] have idb: "bk_id b = tok_booking_id t"
    and mem: "b \<in> set (bookings d)"
    by simp_all
  have bk': "select_booking (bk_id b) d = b # bs"
    using bk idb by simp
  have A: "handler e ''approve'' token d =
           \<lparr>durable = mark_token_used (tok_id t) (now_update e) (approve_booking (bk_id b) d),
            tx = None,
            trace = [EvGetConnection, EvBegin, EvSelectToken token,
                     EvSelectBooking (tok_booking_id t), EvUpdateBooking (bk_id b),
                     EvMarkUsed (tok_id t), EvSelectInfrastructure (bk_infrastructure_id b)]
                    @ notification b ''approve'' d @ [EvCommit, EvRelease],
            sent = Some (success_response ''approve'')\<rparr>"
    using success_path [OF _ all tok bk pending, of "''approve''"]
    by (simp add: transition_def transition_event_def)
  have R: "handler e ''reject'' token d =
           \<lparr>durable = mark_token_used (tok_id t) (now_update e)
                        (AdminRejectOrCancelBooking (bk_id b) ''rejected'' d),
            tx = None,
            trace = [EvGetConnection, EvBegin, EvSelectToken token,
                     EvSelectBooking (tok_booking_id t), EvCallProcedure (bk_id b) ''rejected'',
                     EvMarkUsed (tok_id t), EvSelectInfrastructure (bk_infrastructure_id b)]
                    @ notification b ''reject'' d @ [EvCommit, EvRelease],
            sent = Some (success_response ''reject'')\<rparr>"
    using success_path [OF _ all tok bk pending, of "''reject''"]
    by (simp add: transition_def transition_event_def)
  have A3: "length (bookings (approve_booking (bk_id b) d)) = length (bookings d)"
    by (simp add: approve_booking_def)
  have A4: "\<forall>i s. EvCallProcedure i s \<notin> set (notification b ''approve'' d)"
    by (simp add: notification_def split: list.splits)
  have R1: "\<forall>r \<in> set (bookings (AdminRejectOrCancelBooking (bk_id b) ''rejected'' d)).
              bk_id r = bk_id b \<longrightarrow> bk_status r = ''rejected''"
    using reject_sets_status [OF mem] by blast
  have R3: "\<exists>r \<in> set (listAvailable (bk_infrastructure_id b)
                        (AdminRejectOrCancelBooking (bk_id b) ''rejected'' d)).
              bk_booking_date r = bk_booking_date b \<and> bk_start_time r = bk_start_time b
              \<and> bk_end_time r = bk_end_time b"
    using reject_frees_window [OF bk', of "''rejected''"]
    by (rule bexI [rotated]) simp
  show "let w = handler e ''approve'' token d in
              durable w = mark_token_used (tok_id t) (now_update e) (approve_booking (bk_id b) d)
            \<and> (\<forall>r \<in> set (bookings (durable w)). bk_id r = bk_id b \<longrightarrow> bk_status r = ''approved'')
            \<and> b\<lparr>bk_status := ''approved''\<rparr> \<in> set (bookings (durable w))
            \<and> length (bookings (durable w)) = length (bookings d)
            \<and> (\<forall>k. set (listAvailable k (durable w)) \<subseteq> set (listAvailable k d))
            \<and> (\<forall>i s. EvCallProcedure i s \<notin> set (trace w))
            \<and> trace w = [EvGetConnection, EvBegin, EvSelectToken token,
                          EvSelectBooking (tok_booking_id t), EvUpdateBooking (bk_id b),
                          EvMarkUsed (tok_id t), EvSelectInfrastructure (bk_infrastructure_id b)]
                         @ notification b ''approve'' d @ [EvCommit, EvRelease]
            \<and> tx w = None
            \<and> sent w = Some (success_response ''approve'')"
    unfolding Let_def A
    using approve_sets_status [of b d] approve_row [OF mem] A3 A4
      approve_releases_nothing [of _ "bk_id b" d]
    by simp
  show "let w = handler e ''reject'' token d in
              durable w = mark_token_used (tok_id t) (now_update e)
                            (AdminRejectOrCancelBooking (bk_id b) ''rejected'' d)
            \<and> (\<forall>r \<in> set (bookings (durable w)). bk_id r = bk_id b \<longrightarrow> bk_status r = ''rejected'')
            \<and> b\<lparr>bk_status := ''rejected''\<rparr> \<in> set (bookings (durable w))
            \<and> (\<exists>r \<in> set (listAvailable (bk_infrastructure_id b) (durable w)).
                   bk_booking_date r = bk_booking_date b \<and> bk_start_time r = bk_start_time b
                   \<and> bk_end_time r = bk_end_time b)
            \<and> trace w = [EvGetConnection, EvBegin, EvSelectToken token,
                          EvSelectBooking (tok_booking_id t),
                          EvCallProcedure (bk_id b) ''rejected'',
                          EvMarkUsed (tok_id t), EvSelectInfrastructure (bk_infrastructure_id b)]
                         @ notification b ''reject'' d @ [EvCommit, EvRelease]
            \<and> tx w = None
            \<and> sent w = Some (success_response ''reject'')"
    unfolding Let_def R
    using R1 R3 reject_row [OF bk', of "''rejected''"]
    by simp
next
  assume later: "(fails e MarkTokenUsed \<or> fails e SelectInfrastructure \<or> fails e Commit)
                 \<and> \<not> fails e Rollback"
  show "let w = handler e ''approve'' token d in
              durable w = d \<and> tx w = None \<and> sent w = Some server_error_response
            \<and> EvUpdateBooking (bk_id b) \<in> set (trace w)
            \<and> EvRollback \<in> set (trace w) \<and> EvCommit \<notin> set (trace w)"
    using later_failure_rolls_back [OF _ ok tok bk pending, of "''approve''"] later
    by (simp add: transition_event_def Let_def)
  show "let w = handler e ''reject'' token d in
              durable w = d \<and> tx w = None \<and> sent w = Some server_error_response
            \<and> EvCallProcedure (bk_id b) ''rejected'' \<in> set (trace w)
            \<and> EvRollback \<in> set (trace w) \<and> EvCommit \<notin> set (trace w)"
    using later_failure_rolls_back [OF _ ok tok bk pending, of "''reject''"] later
    by (simp add: transition_event_def Let_def)
qed

theorem pending_transition_effects_witness:
  "bookings (durable (handler env_ok ''approve'' ''T1'' db_example))
     = [booking_7, booking_42\<lparr>bk_status := ''approved''\<rparr>, booking_43]
   \<and> bookings (durable (handler env_ok ''reject'' ''T1'' db_example))
     = [booking_7, booking_42\<lparr>bk_status := ''rejected''\<rparr>, booking_43,
        booking_42\<lparr>bk_id := 44, bk_status := ''available'', bk_requester := []\<rparr>]
   \<and> trace (handler env_ok ''reject'' ''T1'' db_example)
     = [EvGetConnection, EvBegin, EvSelectToken ''T1'', EvSelectBooking 42,
        EvCallProcedure 42 ''rejected'', EvMarkUsed 1, EvSelectInfrastructure 5,
        EvNotify booking_42 infrastructure_5 ''rejected'', EvCommit, EvRelease]
   \<and> fails (env_failing Commit) Commit
   \<and> durable (handler (env_failing Commit) ''reject'' ''T1'' db_example) = db_example
   \<and> tx (handler (env_failing Commit) ''reject'' ''T1'' db_example) = None
   \<and> sent (handler (env_failing Commit) ''reject'' ''T1'' db_example)
       = Some server_error_response"
  using pending_transition_effects [of env_ok "''T1''" db_example token_T1 "[]" booking_42 "[]"]
    pending_transition_effects [of "env_failing Commit" "''T1''" db_example token_T1 "[]"
      booking_42 "[]"]
  by (simp add: succeed_def qdefs fdefs notification_def outcome_of_def Let_def)

section \<open>A booking whose infrastructure has no record\<close>

text \<open>
  C10. When the token is valid, the booking is pending, no call throws and no
  infrastructure record has the id the booking names, the handler commits the status
  transition together with the consumption of the token and answers 200 with
  \<open>success = true\<close>; the email service is not called. In the committed database every
  booking record with the id of the booking has the status of the outcome (\<open>approved\<close>
  or \<open>rejected\<close>), the booking's own row among them, and every token row with the id of
  the selected row is used, the selected row among them.
\<close>

theorem missing_infrastructure_commits_silently:
  assumes act: "action = ''approve'' \<or> action = ''reject''"
    and ok: "succeed e [GetConnection, BeginTransaction, SelectToken, SelectBooking, UpdateBooking,
                    CallRejectProcedure, MarkTokenUsed, SelectInfrastructure, Commit]"
    and tok: "select_token token (now_select e) d = t # ts"
    and bk: "select_booking (tok_booking_id t) d = b # bs"
    and pending: "bk_status b = ''pending''"
    and noinf: "select_infrastructure (bk_infrastructure_id b) d = []"
  shows "handler e action token d =
           \<lparr>durable = mark_token_used (tok_id t) (now_update e) (transition action (bk_id b) d),
            tx = None,
            trace = [EvGetConnection, EvBegin, EvSelectToken token,
                     EvSelectBooking (tok_booking_id t), transition_event action (bk_id b),
                     EvMarkUsed (tok_id t), EvSelectInfrastructure (bk_infrastructure_id b),
                     EvCommit, EvRelease],
            sent = Some (success_response action)\<rparr>
         \<and> (\<forall>r \<in> set (bookings (durable (handler e action token d))).
               bk_id r = bk_id b \<longrightarrow> bk_status r = outcome_of action)
         \<and> b\<lparr>bk_status := outcome_of action\<rparr>
               \<in> set (bookings (durable (handler e action token d)))
         \<and> (\<forall>r \<in> set (email_action_tokens (durable (handler e action token d))).
               tok_id r = tok_id t \<longrightarrow> tok_used r)
         \<and> t\<lparr>tok_used := True, tok_used_at := Some (now_update e)\<rparr>
               \<in> set (email_action_tokens (durable (handler e action token d)))
         \<and> (\<forall>bk i out. EvNotify bk i out \<notin> set (trace (handler e action token d)))
         \<and> http_status (success_response action) = 200
         \<and> success (success_response action)"
proof -
  have run: "handler e action token d =
           \<lparr>durable = mark_token_used (tok_id t) (now_update e) (transition action (bk_id b) d),
            tx = None,
            trace = [EvGetConnection, EvBegin, EvSelectToken token,
                     EvSelectBooking (tok_booking_id t), transition_event action (bk_id b),
                     EvMarkUsed (tok_id t), EvSelectInfrastructure (bk_infrastructure_id b),
                     EvCommit, EvRelease],
            sent = Some (success_response action)\<rparr>"
    using assms
    by (auto simp add: hdefs sdefs succeed_def transition_def transition_event_def)
  from select_booking_id [OF bk] have idb: "bk_id b = tok_booking_id t"
    and mem: "b \<in> set (bookings d)"
    by simp_all
  have bk': "select_booking (bk_id b) d = b # bs"
    using bk idb by simp
  have status: "\<forall>r \<in> set (bookings (transition action (bk_id b) d)).
                  bk_id r = bk_id b \<longrightarrow> bk_status r = outcome_of action"
  proof (cases "action = ''approve''")
    case True
    then show ?thesis
      using approve_sets_status [of b d] by (simp add: transition_def outcome_of_def)
  next
    case False
    have "\<forall>r \<in> set (bookings (AdminRejectOrCancelBooking (bk_id b) ''rejected'' d)).
              bk_id r = bk_id b \<longrightarrow> bk_status r = ''rejected''"
      using reject_sets_status [OF mem] by blast
    with False show ?thesis
      by (simp add: transition_def outcome_of_def)
  qed
  have row: "b\<lparr>bk_status := outcome_of action\<rparr> \<in> set (bookings (transition action (bk_id b) d))"
  proof (cases "action = ''approve''")
    case True
    then show ?thesis
      using approve_row [OF mem] by (simp add: transition_def outcome_of_def)
  next
    case False
    then show ?thesis
      using reject_row [OF bk', of "''rejected''"] by (simp add: transition_def outcome_of_def)
  qed
  have "t \<in> set (email_action_tokens (transition action (bk_id b) d))"
    using select_token_mem [OF tok] by simp
  then have marked: "t\<lparr>tok_used := True, tok_used_at := Some (now_update e)\<rparr>
      \<in> set (email_action_tokens
                (mark_token_used (tok_id t) (now_update e) (transition action (bk_id b) d)))"
    by (rule mark_token_used_row)
  have used: "\<forall>r \<in> set (email_action_tokens
                (mark_token_used (tok_id t) (now_update e) (transition action (bk_id b) d))).
                tok_id r = tok_id t \<longrightarrow> tok_used r"
    by (rule mark_token_used_marks)
  have nonotify: "\<forall>bk i out. EvNotify bk i out \<noteq> transition_event action (bk_id b)"
    by (simp add: transition_event_def)
  show ?thesis
    unfolding run using status row marked used nonotify
    by (simp add: success_response_def)
qed

theorem missing_infrastructure_commits_silently_witness:
  "select_infrastructure (bk_infrastructure_id booking_43) db_example = []
   \<and> sent (handler env_ok ''approve'' ''T4'' db_example) = Some (success_response ''approve'')
   \<and> tx (handler env_ok ''approve'' ''T4'' db_example) = None
   \<and> bookings (durable (handler env_ok ''approve'' ''T4'' db_example))
       = [booking_7, booking_42, booking_43\<lparr>bk_status := ''approved''\<rparr>]
   \<and> email_action_tokens (durable (handler env_ok ''approve'' ''T4'' db_example))
       = [token_T1, token_T2, token_T3,
          token_T4\<lparr>tok_used := True, tok_used_at := Some 101\<rparr>]
   \<and> trace (handler env_ok ''approve'' ''T4'' db_example)
       = [EvGetConnection, EvBegin, EvSelectToken ''T4'', EvSelectBooking 43,
          EvUpdateBooking 43, EvMarkUsed 4, EvSelectInfrastructure 6, EvCommit, EvRelease]"
  using missing_infrastructure_commits_silently [of "''approve''" env_ok "''T4''" db_example
          token_T4 "[]" booking_43 "[]"]
  by (simp add: succeed_def qdefs fdefs transition_def transition_event_def outcome_of_def)

section \<open>The notification and the commit\<close>

text \<open>
  C1, the claim as stated: the email service is called only after the commit, never on
  a transaction that is rolled back. It fails on the first scenario of the
  specification. The request succeeds and its trace has the call before the commit; and
  when the commit throws, the call has been made and the transaction is rolled back.
\<close>

theorem notification_before_commit_counterexample:
  "sent (handler env_ok ''approve'' ''T1'' db_example) = Some (success_response ''approve'')
   \<and> \<not> notify_only_after_commit False (trace (handler env_ok ''approve'' ''T1'' db_example))
   \<and> EvNotify booking_42 infrastructure_5 ''approved''
        \<in> set (trace (handler (env_failing Commit) ''approve'' ''T1'' db_example))
   \<and> EvRollback \<in> set (trace (handler (env_failing Commit) ''approve'' ''T1'' db_example))
   \<and> durable (handler (env_failing Commit) ''approve'' ''T1'' db_example) = db_example"
  by (simp add: hdefs sdefs qdefs fdefs)

text \<open>
  C1, amended. On the path of a pending booking whose infrastructure has a record, when
  no call up to the notification throws, the email service is called inside the open
  transaction, after the token is marked used and before the commit is attempted. When
  the commit succeeds the response is the success response; when the commit throws, the
  handler rolls back and answers 500 (or sends nothing, when the rollback throws too),
  with the notification already sent.
\<close>

theorem notification_precedes_commit:
  assumes "action = ''approve'' \<or> action = ''reject''"
    and "succeed e [GetConnection, BeginTransaction, SelectToken, SelectBooking, UpdateBooking,
                    CallRejectProcedure, MarkTokenUsed, SelectInfrastructure, SendNotification]"
    and "select_token token (now_select e) d = t # ts"
    and "select_booking (tok_booking_id t) d = b # bs"
    and "bk_status b = ''pending''"
    and "select_infrastructure (bk_infrastructure_id b) d = i # is"
  shows "handler e action token d =
           (if \<not> fails e Commit then
              \<lparr>durable = mark_token_used (tok_id t) (now_update e) (transition action (bk_id b) d),
               tx = None,
               trace = [EvGetConnection, EvBegin, EvSelectToken token,
                        EvSelectBooking (tok_booking_id t), transition_event action (bk_id b),
                        EvMarkUsed (tok_id t), EvSelectInfrastructure (bk_infrastructure_id b),
                        EvNotify b i (outcome_of action), EvCommit, EvRelease],
               sent = Some (success_response action)\<rparr>
            else if \<not> fails e Rollback then
              \<lparr>durable = d, tx = None,
               trace = [EvGetConnection, EvBegin, EvSelectToken token,
                        EvSelectBooking (tok_booking_id t), transition_event action (bk_id b),
                        EvMarkUsed (tok_id t), EvSelectInfrastructure (bk_infrastructure_id b),
                        EvNotify b i (outcome_of action), EvFailed Commit, EvRollback, EvRelease],
               sent = Some server_error_response\<rparr>
            else
              \<lparr>durable = d,
               tx = Some (mark_token_used (tok_id t) (now_update e)
                            (transition action (bk_id b) d)),
               trace = [EvGetConnection, EvBegin, EvSelectToken token,
                        EvSelectBooking (tok_booking_id t), transition_event action (bk_id b),
                        EvMarkUsed (tok_id t), EvSelectInfrastructure (bk_infrastructure_id b),
                        EvNotify b i (outcome_of action), EvFailed Commit, EvFailed Rollback,
                        EvRelease],
               sent = None\<rparr>)
         \<and> \<not> notify_only_after_commit False (trace (handler e action token d))"
  using assms
  by (auto simp add: hdefs sdefs succeed_def transition_def transition_event_def outcome_of_def)

theorem notification_precedes_commit_witness:
  "handler env_ok ''reject'' ''T1'' db_example =
     \<lparr>durable = mark_token_used 1 101 (AdminRejectOrCancelBooking 42 ''rejected'' db_example),
      tx = None,
      trace = [EvGetConnection, EvBegin, EvSelectToken ''T1'', EvSelectBooking 42,
               EvCallProcedure 42 ''rejected'', EvMarkUsed 1, EvSelectInfrastructure 5,
               EvNotify booking_42 infrastructure_5 ''rejected'', EvCommit, EvRelease],
      sent = Some (success_response ''reject'')\<rparr>"
  using notification_precedes_commit [of "''reject''" env_ok "''T1''" db_example token_T1 "[]"
          booking_42 "[]" infrastructure_5 "[]"]
  by (simp add: succeed_def qdefs fdefs transition_def transition_event_def outcome_of_def)

text \<open>
  C4, the claim as stated: a failure of the email service is swallowed, nothing is rolled
  back and the response is no infrastructure error. It fails when the call of the email
  service throws: the handler rolls back the transition and the consumption of the
  token, and answers 500.
\<close>

theorem dispatcher_failure_counterexample:
  "handler (env_failing SendNotification) ''approve'' ''T1'' db_example =
     \<lparr>durable = db_example, tx = None,
      trace = [EvGetConnection, EvBegin, EvSelectToken ''T1'', EvSelectBooking 42,
               EvUpdateBooking 42, EvMarkUsed 1, EvSelectInfrastructure 5,
               EvFailed SendNotification, EvRollback, EvRelease],
      sent = Some server_error_response\<rparr>
   \<and> http_status server_error_response = 500"
  by (simp add: hdefs sdefs qdefs fdefs server_error_response_def)

text \<open>
  C4, amended. The call of the email service is inside \<^verbatim>\<open>try\<close> and before the
  commit. When it throws, on the path of a pending booking whose infrastructure has a
  record, the handler rolls the transaction back, so that the database is the one the
  request found (booking still pending, token not used), and answers 500.
\<close>

theorem dispatcher_failure_rolls_back:
  assumes "action = ''approve'' \<or> action = ''reject''"
    and "succeed e [GetConnection, BeginTransaction, SelectToken, SelectBooking, UpdateBooking,
                    CallRejectProcedure, MarkTokenUsed, SelectInfrastructure, Rollback]"
    and "fails e SendNotification"
    and "select_token token (now_select e) d = t # ts"
    and "select_booking (tok_booking_id t) d = b # bs"
    and "bk_status b = ''pending''"
    and "select_infrastructure (bk_infrastructure_id b) d = i # is"
  shows "handler e action token d =
           \<lparr>durable = d, tx = None,
            trace = [EvGetConnection, EvBegin, EvSelectToken token,
                     EvSelectBooking (tok_booking_id t), transition_event action (bk_id b),
                     EvMarkUsed (tok_id t), EvSelectInfrastructure (bk_infrastructure_id b),
                     EvFailed SendNotification, EvRollback, EvRelease],
            sent = Some server_error_response\<rparr>"
  using assms
  by (auto simp add: hdefs sdefs succeed_def transition_def transition_event_def)

theorem dispatcher_failure_rolls_back_witness:
  "fails (env_failing SendNotification) SendNotification
   \<and> handler (env_failing SendNotification) ''reject'' ''T1'' db_example =
     \<lparr>durable = db_example, tx = None,
      trace = [EvGetConnection, EvBegin, EvSelectToken ''T1'', EvSelectBooking 42,
               EvCallProcedure 42 ''rejected'', EvMarkUsed 1, EvSelectInfrastructure 5,
               EvFailed SendNotification, EvRollback, EvRelease],
      sent = Some server_error_response\<rparr>"
  using dispatcher_failure_rolls_back [of "''reject''" "env_failing SendNotification" "''T1''"
          db_example token_T1 "[]" booking_42 "[]" infrastructure_5 "[]"]
  by (simp add: succeed_def qdefs fdefs transition_def transition_event_def)

section \<open>A token whose booking does not exist\<close>

text \<open>
  C8. Token \<open>T3\<close> is valid and names booking 99, of which there is no record. The
  handler answers 404 and the database is unchanged, but it returns at line 52 without
  a rollback: the trace has no rollback and the connection is released with its
  transaction still open.
\<close>

theorem booking_not_found_leaves_transaction_open:
  "handler env_ok ''approve'' ''T3'' db_example =
     \<lparr>durable = db_example, tx = Some db_example,
      trace = [EvGetConnection, EvBegin, EvSelectToken ''T3'', EvSelectBooking 99, EvRelease],
      sent = Some booking_not_found_response\<rparr>
   \<and> EvRollback \<notin> set (trace (handler env_ok ''approve'' ''T3'' db_example))
   \<and> http_status booking_not_found_response = 404"
  by (simp add: hdefs sdefs qdefs fdefs booking_not_found_response_def)

section \<open>Replaying a token\<close>

text \<open>
  C2, the claim as stated: the second of two sequential calls with the same token
  reports that the booking was already processed. It fails on the first scenario of the
  specification: the first call approves booking 42 and marks \<open>T1\<close> used, and the second
  call is answered with the response of an invalid or expired token.
\<close>

theorem replay_counterexample:
  "sent (handler env_ok ''approve'' ''T1'' db_example) = Some (success_response ''approve'')
   \<and> sent (handler env_ok ''approve'' ''T1'' (durable (handler env_ok ''approve'' ''T1'' db_example)))
       = Some invalid_token_response
   \<and> sent (handler env_ok ''approve'' ''T1'' (durable (handler env_ok ''approve'' ''T1'' db_example)))
       \<noteq> Some (already_processed_response ''approved'')"
  by (simp add: hdefs sdefs qdefs fdefs invalid_token_response_def already_processed_response_def)

text \<open>
  C2, amended. When token values are unique in the table and a first call is answered
  with the success response, a second call with the same token and action on the
  committed database is answered with the response of an invalid or expired token,
  provided its first three calls do not throw; whatever throws, it is answered neither
  with a second success nor with the response of an already processed booking.
\<close>

theorem replay_reports_invalid_token:
  assumes "distinct (map tok_token (email_action_tokens d))"
    and "sent (handler e1 action token d) = Some (success_response action)"
  shows "(succeed e2 [GetConnection, BeginTransaction, SelectToken] \<longrightarrow>
            sent (handler e2 action token (durable (handler e1 action token d)))
              = Some invalid_token_response)
         \<and> sent (handler e2 action token (durable (handler e1 action token d)))
             \<noteq> Some (success_response action)
         \<and> (\<forall>st. sent (handler e2 action token (durable (handler e1 action token d)))
             \<noteq> Some (already_processed_response st))"
proof -
  from success_inversion [OF assms(2)] obtain t ts
    where act: "action = ''approve'' \<or> action = ''reject''"
      and sel: "select_token token (now_select e1) d = t # ts"
      and toks: "email_action_tokens (durable (handler e1 action token d))
                  = email_action_tokens (mark_token_used (tok_id t) (now_update e1) d)"
    by blast
  have none: "select_token token (now_select e2) (durable (handler e1 action token d)) = []"
    by (rule consumed_token_not_selected [OF assms(1) sel toks])
  from no_token_row [OF act none]
  have a: "succeed e2 [GetConnection, BeginTransaction, SelectToken] \<longrightarrow>
            sent (handler e2 action token (durable (handler e1 action token d)))
              = Some invalid_token_response"
    and b: "sent (handler e2 action token (durable (handler e1 action token d)))
             \<in> {None, Some server_error_response, Some invalid_token_response}"
    by simp_all
  have c: "sent (handler e2 action token (durable (handler e1 action token d)))
             \<noteq> Some (success_response action)"
    using b by (auto simp add: server_error_response_def invalid_token_response_def
                  success_response_def)
  have d: "\<forall>st. sent (handler e2 action token (durable (handler e1 action token d)))
             \<noteq> Some (already_processed_response st)"
    using b by (auto simp add: server_error_response_def invalid_token_response_def
                  already_processed_response_def)
  from a c d show ?thesis by simp
qed

theorem replay_reports_invalid_token_witness:
  "sent (handler env_ok ''approve'' ''T1'' db_example) = Some (success_response ''approve'')
   \<and> sent (handler env_ok ''approve'' ''T1'' (durable (handler env_ok ''approve'' ''T1'' db_example)))
       = Some invalid_token_response"
proof -
  have u: "distinct (map tok_token (email_action_tokens db_example))"
    by (simp add: fdefs)
  have s: "sent (handler env_ok ''approve'' ''T1'' db_example) = Some (success_response ''approve'')"
    by (simp add: hdefs sdefs qdefs fdefs)
  have k: "succeed env_ok [GetConnection, BeginTransaction, SelectToken]"
    by (simp add: succeed_def env_ok_def)
  show ?thesis
    using replay_reports_invalid_token [OF u s, of env_ok] s k by simp
qed

section \<open>The action bound to the token\<close>

text \<open>
  C5, the claim as stated: an action in the URL that differs from the action bound to
  the token is reported as a validation failure. It fails for token \<open>T1\<close>, bound to
  \<open>approve\<close>, presented under \<open>reject\<close>: the request succeeds and booking 42 is
  rejected.
\<close>

theorem bound_action_counterexample:
  "tok_action token_T1 = ''approve''
   \<and> select_token ''T1'' 100 db_example = [token_T1]
   \<and> sent (handler env_ok ''reject'' ''T1'' db_example) = Some (success_response ''reject'')
   \<and> select_booking 42 (durable (handler env_ok ''reject'' ''T1'' db_example))
       = [booking_42\<lparr>bk_status := ''rejected''\<rparr>]"
  by (simp add: hdefs sdefs qdefs fdefs)

text \<open>
  C5, amended. The handler never reads the action bound to the token: the action taken
  is the one of the URL. Whatever actions the tokens are bound to, the response and the
  trace of a request are the same, and the committed database is the same up to these
  bound actions.
\<close>

theorem bound_action_not_consulted:
  "sent (handler e action token (rebind f d)) = sent (handler e action token d)
   \<and> trace (handler e action token (rebind f d)) = trace (handler e action token d)
   \<and> durable (handler e action token (rebind f d)) = rebind f (durable (handler e action token d))"
proof (cases "select_token token (now_select e) d")
  case Nil
  then have "select_token token (now_select e) (rebind f d) = []"
    by (simp add: select_token_rebind)
  with Nil show ?thesis
    by (simp add: hdefs sdefs Let_def)
next
  case (Cons t ts)
  then have "select_token token (now_select e) (rebind f d)
               = t\<lparr>tok_action := f (tok_id t)\<rparr>
                 # map (\<lambda>r. r\<lparr>tok_action := f (tok_id r)\<rparr>) ts"
    by (simp add: select_token_rebind)
  with Cons show ?thesis
    by (auto simp add: hdefs sdefs Let_def split: list.splits)
qed

end
